theory Spec2Isabelle
  imports Main "HOL-Library.Word" "HOL-Library.AList"
begin

section \<open>JSON values as Python sees them\<close>

text \<open>
  Both scripts work on the values that \<^verbatim>\<open>json.load\<close> / \<^verbatim>\<open>json.loads\<close> return:
  \<^verbatim>\<open>None\<close>, booleans, unbounded integers, floats, strings, lists and dicts with string
  keys. A dict keeps its insertion order, so it is an association list; a dict that
  Python built has distinct keys, and then \<open>map_of\<close> is exactly the dict's lookup.

  A float is carried around and never computed with; the only thing the scripts ever
  ask of one is its truth value, and a binary64 float is false exactly when it is a
  zero, that is, when its exponent and fraction bits are all zero.
\<close>

datatype pyfloat = PyFloat (sign: bool) (exponent: "11 word") (fraction: "52 word")

datatype json =
    JNull
  | JBool bool
  | JInt int
  | JFloat pyfloat
  | JStr string
  | JList "json list"
  | JObj "(string \<times> json) list"

text \<open>Python's truth value testing (\<^verbatim>\<open>if x\<close>, \<^verbatim>\<open>not x\<close>, \<^verbatim>\<open>x or y\<close>).\<close>

fun truthy :: "json \<Rightarrow> bool" where
  "truthy JNull = False"
| "truthy (JBool b) = b"
| "truthy (JInt n) = (n \<noteq> 0)"
| "truthy (JFloat f) = (\<not> (exponent f = 0 \<and> fraction f = 0))"
| "truthy (JStr s) = (s \<noteq> [])"
| "truthy (JList xs) = (xs \<noteq> [])"
| "truthy (JObj d) = (d \<noteq> [])"

text \<open>\<^verbatim>\<open>x or y\<close>: the first operand when it is true, else the second.\<close>

definition py_or :: "json \<Rightarrow> json \<Rightarrow> json" where
  "py_or x y = (if truthy x then x else y)"

text \<open>\<^verbatim>\<open>d.get(k, default)\<close>; \<^verbatim>\<open>d.get(k)\<close> is \<open>dict_get d k JNull\<close>.\<close>

definition dict_get :: "(string \<times> json) list \<Rightarrow> string \<Rightarrow> json \<Rightarrow> json" where
  "dict_get d k dflt = (case map_of d k of None \<Rightarrow> dflt | Some v \<Rightarrow> v)"

text \<open>\<^verbatim>\<open>isinstance(x, list)\<close>.\<close>

fun is_list :: "json \<Rightarrow> bool" where
  "is_list (JList xs) = True"
| "is_list _ = False"

text \<open>\<^verbatim>\<open>isinstance(x, dict)\<close>.\<close>

fun is_dict :: "json \<Rightarrow> bool" where
  "is_dict (JObj d) = True"
| "is_dict _ = False"

section \<open>Exceptions, files and printed warnings\<close>

text \<open>
  The exceptions the two scripts can meet. \<open>SystemExit\<close> is what \<^verbatim>\<open>sys.exit\<close> raises;
  it derives from \<^verbatim>\<open>BaseException\<close> only, so \<^verbatim>\<open>except Exception\<close> does not catch it.
\<close>

datatype exception =
    FileNotFoundError
  | JSONDecodeError
  | UnicodeDecodeError
  | ValueError
  | RecursionError
  | OSError
  | TypeError
  | AttributeError
  | HTTPError nat
  | URLError
  | SystemExit nat

fun is_Exception :: "exception \<Rightarrow> bool" where
  "is_Exception (SystemExit c) = False"
| "is_Exception _ = True"

text \<open>
  What a path gives to a reader that first asks \<^verbatim>\<open>exists()\<close> and then calls
  \<^verbatim>\<open>open(path, 'r')\<close> and \<^verbatim>\<open>json.load\<close>:
  \<^item> \<open>NoFile\<close>: \<^verbatim>\<open>exists()\<close> is false;
  \<^item> \<open>ExistsRaises e\<close>: \<^verbatim>\<open>exists()\<close> itself raises \<open>e\<close> (an \<open>OSError\<close> such as a file
    name that is too long);
  \<^item> \<open>LoadRaises e\<close>: the path exists and \<^verbatim>\<open>open\<close> or \<^verbatim>\<open>json.load\<close> raises \<open>e\<close>:
    \<open>JSONDecodeError\<close> for text that is not JSON, \<open>UnicodeDecodeError\<close> for bytes that
    are not text, \<open>ValueError\<close> for an integer literal beyond the digit limit,
    \<open>RecursionError\<close> for nesting that is too deep, \<open>OSError\<close> for a directory or a
    file that may not be read;
  \<^item> \<open>Json v\<close>: the value \<open>v\<close> is returned.
\<close>

datatype json_file = NoFile | ExistsRaises exception | LoadRaises exception | Json json

text \<open>
  The file system: the file that a path, as text, denotes (\<open>resolve\<close>: the operating
  system follows \<^verbatim>\<open>..\<close> and links, so two texts can denote one file), what each file
  gives to a reader, and the exception that opening a file for writing raises, if any.
\<close>

record filesystem =
  resolve :: "string \<Rightarrow> string"
  files :: "string \<Rightarrow> json_file"
  open_w :: "string \<Rightarrow> exception option"

definition file_at :: "filesystem \<Rightarrow> string \<Rightarrow> json_file" where
  "file_at fs path = files fs (resolve fs path)"

text \<open>
  The operator \<^verbatim>\<open>/\<close> of \<^verbatim>\<open>pathlib\<close> on a path that is not empty: a right operand that
  is absolute replaces the path. (\<^verbatim>\<open>pathlib\<close> also drops doubled slashes and \<^verbatim>\<open>.\<close>
  steps from the text, which does not change the file that the text denotes; it keeps
  \<^verbatim>\<open>..\<close> steps.)
\<close>

definition joinpath :: "string \<Rightarrow> string \<Rightarrow> string" where
  "joinpath p q =
     (case q of
        [] \<Rightarrow> p
      | c # cs \<Rightarrow> if c = CHR ''/'' then q else p @ ''/'' @ q)"

text \<open>
  The lines the scripts print that report a problem. The purely informative progress
  lines are left out.
\<close>

datatype warning =
    MissingID json
  | StreamFileNotFound string
  | StreamParseFailed string
  | CouldNotFetchStreams string exception
  | NoStreamsAvailable

section \<open>The Merger: \<^verbatim>\<open>process_activities.py\<close>\<close>

text \<open>\<^verbatim>\<open>data_dir / "activities.json"\<close>.\<close>

definition activities_file :: "string \<Rightarrow> string" where
  "activities_file data_dir = joinpath data_dir ''activities.json''"

text \<open>
  Nothing in \<^verbatim>\<open>load_activities\<close> catches an exception: whatever \<^verbatim>\<open>exists\<close>,
  \<^verbatim>\<open>open\<close> or \<^verbatim>\<open>json.load\<close> raises goes up.
\<close>

definition load_activities :: "filesystem \<Rightarrow> string \<Rightarrow> exception + json" where
  "load_activities fs data_dir =
     (case file_at fs (activities_file data_dir) of
        NoFile \<Rightarrow> Inl FileNotFoundError
      | ExistsRaises e \<Rightarrow> Inl e
      | LoadRaises e \<Rightarrow> Inl e
      | Json activities \<Rightarrow> Inr activities)"

text \<open>\<^verbatim>\<open>data_dir / "streams" / f"{activity_id}.json"\<close>.\<close>

definition stream_file :: "string \<Rightarrow> string \<Rightarrow> string" where
  "stream_file activity_id data_dir = joinpath (joinpath data_dir ''streams'') (activity_id @ ''.json'')"

text \<open>
  \<^verbatim>\<open>load_stream_data\<close> asks \<^verbatim>\<open>exists()\<close> outside its \<^verbatim>\<open>try\<close>, and the \<^verbatim>\<open>try\<close> around
  \<^verbatim>\<open>open\<close> and \<^verbatim>\<open>json.load\<close> catches \<^verbatim>\<open>json.JSONDecodeError\<close> and nothing else.
\<close>

definition load_stream_data :: "filesystem \<Rightarrow> string \<Rightarrow> string \<Rightarrow> exception + warning list \<times> json" where
  "load_stream_data fs activity_id data_dir =
     (case file_at fs (stream_file activity_id data_dir) of
        NoFile \<Rightarrow> Inr ([StreamFileNotFound activity_id], JObj [])
      | ExistsRaises e \<Rightarrow> Inl e
      | LoadRaises e \<Rightarrow>
          if e = JSONDecodeError then Inr ([StreamParseFailed activity_id], JObj [])
          else Inl e
      | Json stream_data \<Rightarrow> Inr ([], stream_data))"

text \<open>
  One turn of the inner loop over a list payload, on the pair of the variables
  \<^verbatim>\<open>heartrate\<close> and \<^verbatim>\<open>velocity_smooth\<close>.
\<close>

definition stream_step :: "json \<times> json \<Rightarrow> json \<Rightarrow> json \<times> json" where
  "stream_step hv stream =
     (case stream of
        JObj d \<Rightarrow>
          (let stream_type = dict_get d ''type'' JNull in
           if stream_type = JStr ''heartrate'' then (dict_get d ''data'' (JList []), snd hv)
           else if stream_type = JStr ''velocity_smooth'' then (fst hv, dict_get d ''data'' (JList []))
           else hv)
      | _ \<Rightarrow> hv)"

text \<open>The two channels taken from what \<^verbatim>\<open>load_stream_data\<close> returned.\<close>

definition channels :: "json \<Rightarrow> json \<times> json" where
  "channels stream_data =
     (if truthy stream_data then
        (case stream_data of
           JList streams \<Rightarrow> foldl stream_step (JList [], JList []) streams
         | JObj d \<Rightarrow> (dict_get d ''heartrate'' (JList []), dict_get d ''velocity_smooth'' (JList []))
         | _ \<Rightarrow> (JList [], JList []))
      else (JList [], JList []))"

text \<open>
  The dict literal \<^verbatim>\<open>processed_activity\<close> with the activity's metadata, before the two
  channels are stored in it.
\<close>

definition processed_activity :: "(string \<times> json) list \<Rightarrow> json \<Rightarrow> (string \<times> json) list" where
  "processed_activity a activity_id =
     [(''id'', activity_id),
      (''datetime'', dict_get a ''start_date_local'' JNull),
      (''duration'', py_or (dict_get a ''moving_time'' JNull) (dict_get a ''elapsed_time'' JNull)),
      (''distance'', dict_get a ''distance'' JNull)]"

text \<open>
  The body of the loop over the activities, for one element: the warnings it prints
  and the records it appends (none or one), or the exception that ends the run.
  \<open>str\<close> is Python's built-in \<^verbatim>\<open>str\<close>. An element that is not a dict has no \<^verbatim>\<open>get\<close>.
  The two channel keys are new in the dict, so storing them appends them in this
  order.
\<close>

definition process_activity :: "(json \<Rightarrow> string) \<Rightarrow> filesystem \<Rightarrow> string \<Rightarrow> json \<Rightarrow> exception + warning list \<times> json list" where
  "process_activity str fs data_dir activity =
     (case activity of
        JObj a \<Rightarrow>
          if dict_get a ''type'' JNull \<noteq> JStr ''Run'' then Inr ([], [])
          else
            (let activity_id = dict_get a ''id'' JNull in
             if \<not> truthy activity_id then Inr ([MissingID activity], [])
             else
               (case load_stream_data fs (str activity_id) data_dir of
                  Inl e \<Rightarrow> Inl e
                | Inr (ws, stream_data) \<Rightarrow>
                    (let (heartrate, velocity_smooth) = channels stream_data
                     in Inr (ws,
                          [JObj (processed_activity a activity_id @
                                 [(''heartrate'', heartrate), (''velocity_smooth'', velocity_smooth)])]))))
      | _ \<Rightarrow> Inl AttributeError)"

fun process_loop :: "(json \<Rightarrow> string) \<Rightarrow> filesystem \<Rightarrow> string \<Rightarrow> json list \<Rightarrow> exception + warning list \<times> json list" where
  "process_loop str fs data_dir [] = Inr ([], [])"
| "process_loop str fs data_dir (activity # activities) =
     (case process_activity str fs data_dir activity of
        Inl e \<Rightarrow> Inl e
      | Inr (ws, out) \<Rightarrow>
          (case process_loop str fs data_dir activities of
             Inl e \<Rightarrow> Inl e
           | Inr (ws', out') \<Rightarrow> Inr (ws @ ws', out @ out')))"

text \<open>
  What \<^verbatim>\<open>for x in v\<close> goes through: the elements of a list, the keys of a dict, the
  characters of a string; anything else is not iterable (and has no \<^verbatim>\<open>len\<close> either).
\<close>

fun py_iter :: "json \<Rightarrow> exception + json list" where
  "py_iter (JList xs) = Inr xs"
| "py_iter (JObj d) = Inr (map (\<lambda>kv. JStr (fst kv)) d)"
| "py_iter (JStr s) = Inr (map (\<lambda>c. JStr [c]) s)"
| "py_iter _ = Inl TypeError"

text \<open>The list \<^verbatim>\<open>processed_activities\<close> at the end of the loop, with the warnings printed.\<close>

definition processed_activities :: "(json \<Rightarrow> string) \<Rightarrow> filesystem \<Rightarrow> string \<Rightarrow> exception + warning list \<times> json list" where
  "processed_activities str fs data_dir =
     (case load_activities fs data_dir of
        Inl e \<Rightarrow> Inl e
      | Inr activities \<Rightarrow>
          (case py_iter activities of
             Inl e \<Rightarrow> Inl e
           | Inr items \<Rightarrow> process_loop str fs data_dir items))"

text \<open>
  The whole of \<^verbatim>\<open>process_activities\<close>: the exception that ends it or the warnings it
  printed, and the file system it leaves behind. The output file is opened only after
  the loop, so a run that raises before leaves every file as it was. The file written
  with \<^verbatim>\<open>json.dump\<close> gives the list back to a later \<^verbatim>\<open>json.load\<close>, all the values in it
  having come from \<^verbatim>\<open>json.load\<close>; the text in the file is a function of the list.
\<close>

definition process_activities :: "(json \<Rightarrow> string) \<Rightarrow> filesystem \<Rightarrow> string \<Rightarrow> string \<Rightarrow> (exception + warning list) \<times> filesystem" where
  "process_activities str fs data_dir output_file =
     (case processed_activities str fs data_dir of
        Inl e \<Rightarrow> (Inl e, fs)
      | Inr (ws, out) \<Rightarrow>
          (case open_w fs (resolve fs output_file) of
             Some e \<Rightarrow> (Inl e, fs)
           | None \<Rightarrow> (Inr ws, fs\<lparr>files := (files fs)(resolve fs output_file := Json (JList out))\<rparr>)))"

text \<open>
  \<^verbatim>\<open>main\<close> of the Merger, for the directory \<open>data_dir\<close> that it computes from the place
  of the script: the output file is \<^verbatim>\<open>data_dir / "processed_activities.json"\<close>.
\<close>

definition merger_main :: "(json \<Rightarrow> string) \<Rightarrow> filesystem \<Rightarrow> string \<Rightarrow> (exception + warning list) \<times> filesystem" where
  "merger_main str fs data_dir =
     process_activities str fs data_dir (joinpath data_dir ''processed_activities.json'')"

section \<open>The Extractor: \<^verbatim>\<open>download_activities.py\<close>\<close>

text \<open>
  What \<^verbatim>\<open>urlopen\<close>, reading the response and \<^verbatim>\<open>json.loads\<close> do for a URL: a value
  comes back, or one of them raises.
\<close>

datatype reply = Reply json | Raises exception

text \<open>
  \<^verbatim>\<open>make_api_request\<close> catches \<^verbatim>\<open>HTTPError\<close> and \<^verbatim>\<open>URLError\<close> and calls
  \<^verbatim>\<open>sys.exit(1)\<close> in both handlers; any other exception passes through.
\<close>

definition make_api_request :: "(string \<Rightarrow> reply) \<Rightarrow> string \<Rightarrow> exception + json" where
  "make_api_request net url =
     (case net url of
        Reply v \<Rightarrow> Inr v
      | Raises (HTTPError code) \<Rightarrow> Inl (SystemExit 1)
      | Raises URLError \<Rightarrow> Inl (SystemExit 1)
      | Raises e \<Rightarrow> Inl e)"

text \<open>The list comprehension \<^verbatim>\<open>[a for a in activities if a.get('type') == 'Run']\<close>.\<close>

fun only_runs :: "json list \<Rightarrow> exception + json list" where
  "only_runs [] = Inr []"
| "only_runs (JObj a # rest) =
     (case only_runs rest of
        Inl e \<Rightarrow> Inl e
      | Inr runs \<Rightarrow>
          Inr (if dict_get a ''type'' JNull = JStr ''Run'' then JObj a # runs else runs))"
| "only_runs (_ # rest) = Inl AttributeError"

definition get_activities :: "(string \<Rightarrow> reply) \<Rightarrow> exception + json list" where
  "get_activities net =
     (case make_api_request net
             ''https://intervals.icu/api/v1/athlete/0/activities?oldest=2025-01-01&newest=2025-12-31'' of
        Inl e \<Rightarrow> Inl e
      | Inr activities \<Rightarrow>
          (case py_iter activities of
             Inl e \<Rightarrow> Inl e
           | Inr items \<Rightarrow> only_runs items))"

definition get_activity_streams :: "(json \<Rightarrow> string) \<Rightarrow> (string \<Rightarrow> reply) \<Rightarrow> json \<Rightarrow> exception + warning list \<times> json" where
  "get_activity_streams str net activity_id =
     (case make_api_request net
             (''https://intervals.icu/api/v1/activity/'' @ str activity_id @ ''/streams'') of
        Inr streams \<Rightarrow> Inr ([], streams)
      | Inl e \<Rightarrow>
          if is_Exception e then Inr ([CouldNotFetchStreams (str activity_id) e], JObj [])
          else Inl e)"

text \<open>
  The download loop of \<^verbatim>\<open>main\<close>: the warnings printed and the stream files saved, each
  under the text of its activity's identifier.
\<close>

fun download_streams :: "(json \<Rightarrow> string) \<Rightarrow> (string \<Rightarrow> reply) \<Rightarrow> json list \<Rightarrow> exception + warning list \<times> (string \<times> json) list" where
  "download_streams str net [] = Inr ([], [])"
| "download_streams str net (JObj a # activities) =
     (let activity_id = dict_get a ''id'' JNull in
      case get_activity_streams str net activity_id of
        Inl e \<Rightarrow> Inl e
      | Inr (ws, streams) \<Rightarrow>
          (case download_streams str net activities of
             Inl e \<Rightarrow> Inl e
           | Inr (ws', saved) \<Rightarrow>
               if truthy streams then Inr (ws @ ws', (str activity_id, streams) # saved)
               else Inr (ws @ [NoStreamsAvailable] @ ws', saved)))"
| "download_streams str net (_ # activities) = Inl AttributeError"

text \<open>
  \<^verbatim>\<open>main\<close> of the Extractor, after the check of the command line: the warnings, the
  activities saved to \<^verbatim>\<open>activities.json\<close> and the stream files saved.
\<close>

definition download_main :: "(json \<Rightarrow> string) \<Rightarrow> (string \<Rightarrow> reply) \<Rightarrow> exception + warning list \<times> json list \<times> (string \<times> json) list" where
  "download_main str net =
     (case get_activities net of
        Inl e \<Rightarrow> Inl e
      | Inr activities \<Rightarrow>
          (case download_streams str net activities of
             Inl e \<Rightarrow> Inl e
           | Inr (ws, saved) \<Rightarrow> Inr (ws, activities, saved)))"

section \<open>Notions used to state the properties\<close>

text \<open>The value of a field of a record: \<^verbatim>\<open>x.get(k)\<close> for a dict, \<^verbatim>\<open>None\<close> for anything else.\<close>

definition field :: "string \<Rightarrow> json \<Rightarrow> json" where
  "field k x = (case x of JObj d \<Rightarrow> dict_get d k JNull | _ \<Rightarrow> JNull)"

text \<open>A run with an identifier: the activities that get a record.\<close>

definition identified_run :: "json \<Rightarrow> bool" where
  "identified_run a = (field ''type'' a = JStr ''Run'' \<and> truthy (field ''id'' a))"

text \<open>
  A stream file that \<^verbatim>\<open>load_stream_data\<close> gets through: it is not there, it parses, or
  it fails with the one exception that is caught.
\<close>

fun readable :: "json_file \<Rightarrow> bool" where
  "readable NoFile = True"
| "readable (Json v) = True"
| "readable (LoadRaises e) = (e = JSONDecodeError)"
| "readable (ExistsRaises e) = False"

text \<open>
  The files a run of the Merger may read: the activities file and the stream file of
  every run with an identifier in it.
\<close>

definition files_read :: "(json \<Rightarrow> string) \<Rightarrow> filesystem \<Rightarrow> string \<Rightarrow> string list" where
  "files_read str fs data_dir =
     resolve fs (activities_file data_dir) #
     (case load_activities fs data_dir of
        Inl e \<Rightarrow> []
      | Inr activities \<Rightarrow>
          (case py_iter activities of
             Inl e \<Rightarrow> []
           | Inr items \<Rightarrow>
               map (\<lambda>a. resolve fs (stream_file (str (field ''id'' a)) data_dir))
                 (filter identified_run items)))"

text \<open>What a typed record of a list payload holds as its data: \<^verbatim>\<open>stream.get('data', [])\<close>.\<close>

definition channel_data :: "json \<Rightarrow> json" where
  "channel_data x = (case x of JObj d \<Rightarrow> dict_get d ''data'' (JList []) | _ \<Rightarrow> JList [])"

text \<open>
  The data of the last record of a list payload whose channel name is \<open>name\<close>, and the
  empty list when no record has that name.
\<close>

definition last_channel :: "string \<Rightarrow> json list \<Rightarrow> json" where
  "last_channel name streams =
     (case rev (filter (\<lambda>s. field ''type'' s = JStr name) streams) of
        [] \<Rightarrow> JList []
      | s # _ \<Rightarrow> channel_data s)"

text \<open>
  A payload all of whose channel values are sequences: in a list payload the data of
  every record named \<^verbatim>\<open>heartrate\<close> or \<^verbatim>\<open>velocity_smooth\<close>, in a mapping payload the
  values under these two keys. Any other payload has no channel values.
\<close>

definition sequence_channels :: "json \<Rightarrow> bool" where
  "sequence_channels payload =
     (case payload of
        JList streams \<Rightarrow>
          list_all (\<lambda>s. if field ''type'' s = JStr ''heartrate'' \<or> field ''type'' s = JStr ''velocity_smooth''
                        then is_list (channel_data s) else True) streams
      | JObj d \<Rightarrow>
          is_list (dict_get d ''heartrate'' (JList [])) \<and> is_list (dict_get d ''velocity_smooth'' (JList []))
      | _ \<Rightarrow> True)"

section \<open>Example inputs\<close>

text \<open>
  Python's \<^verbatim>\<open>str\<close> on a string is the string itself. The examples below only use
  identifiers that are strings, so this is \<^verbatim>\<open>str\<close> as far as they apply it.
\<close>

definition str_text :: "json \<Rightarrow> string" where
  "str_text x = (case x of JStr s \<Rightarrow> s | _ \<Rightarrow> [])"

text \<open>
  A file system under the directory \<^verbatim>\<open>data\<close> with the activities file, at most the
  one stream file \<^verbatim>\<open>i1.json\<close>, and no output file yet. Every file may be written, and a
  step into \<^verbatim>\<open>streams\<close> and back out with \<^verbatim>\<open>..\<close> leads to \<^verbatim>\<open>data\<close> again.
\<close>

definition example_resolve :: "string \<Rightarrow> string" where
  "example_resolve path =
     (if path = ''data/streams/../processed_activities.json'' then ''data/processed_activities.json''
      else path)"

definition example_files :: "json_file \<Rightarrow> json_file \<Rightarrow> string \<Rightarrow> json_file" where
  "example_files activities stream path =
     (if path = ''data/activities.json'' then activities
      else if path = ''data/streams/i1.json'' then stream
      else NoFile)"

definition writable :: "string \<Rightarrow> exception option" where
  "writable path = None"

definition example_fs :: "json_file \<Rightarrow> json_file \<Rightarrow> filesystem" where
  "example_fs activities stream =
     \<lparr>resolve = example_resolve, files = example_files activities stream, open_w = writable\<rparr>"

definition example_fields :: "string \<Rightarrow> (string \<times> json) list" where
  "example_fields name =
     [(''id'', JStr name), (''type'', JStr ''Run''),
      (''start_date_local'', JStr ''2025-03-01T07:30:00''),
      (''moving_time'', JInt 1750), (''elapsed_time'', JInt 1800),
      (''distance'', JInt 5000)]"

definition example_run :: "string \<Rightarrow> json" where
  "example_run name = JObj (example_fields name)"

text \<open>The record the Merger builds for \<open>example_run name\<close>, given the two channels.\<close>

definition example_record :: "string \<Rightarrow> json \<Rightarrow> json \<Rightarrow> json" where
  "example_record name heartrate velocity_smooth =
     JObj [(''id'', JStr name), (''datetime'', JStr ''2025-03-01T07:30:00''),
           (''duration'', JInt 1750), (''distance'', JInt 5000),
           (''heartrate'', heartrate), (''velocity_smooth'', velocity_smooth)]"

text \<open>A run, a ride, a run without identifier and another run.\<close>

definition example_activities :: "json list" where
  "example_activities =
     [example_run ''i1'', JObj [(''id'', JStr ''i2''), (''type'', JStr ''Ride'')],
      JObj [(''type'', JStr ''Run'')], example_run ''i3'']"

definition heartrate_record :: "int \<Rightarrow> json" where
  "heartrate_record n = JObj [(''type'', JStr ''heartrate''), (''data'', JList [JInt n])]"

text \<open>
  A file system in which the one run has the identifier \<^verbatim>\<open>../processed_activities\<close>, so
  that its stream file is the output file of \<^verbatim>\<open>main\<close>, and in which that file holds a
  list payload to begin with.
\<close>

definition aliased_fs :: filesystem where
  "aliased_fs =
     \<lparr>resolve = example_resolve,
      files = (example_files (Json (JList [example_run ''../processed_activities''])) NoFile)
                (''data/processed_activities.json'' := Json (JList [heartrate_record 1])),
      open_w = writable\<rparr>"

text \<open>
  A remote service with two runs, \<^verbatim>\<open>i1\<close> and \<^verbatim>\<open>i2\<close>; asking for the streams of
  \<^verbatim>\<open>i1\<close> raises \<open>failure\<close>.
\<close>

definition example_net :: "exception \<Rightarrow> string \<Rightarrow> reply" where
  "example_net failure url =
     (if url = ''https://intervals.icu/api/v1/athlete/0/activities?oldest=2025-01-01&newest=2025-12-31''
      then Reply (JList [example_run ''i1'', example_run ''i2''])
      else if url = ''https://intervals.icu/api/v1/activity/i1/streams''
      then Raises failure
      else Reply (JList [heartrate_record 1]))"

section \<open>Auxiliary facts\<close>

lemma field_JObj: "field k (JObj d) = dict_get d k JNull"
  by (simp add: field_def)

lemma identified_run_JObj:
  "identified_run (JObj a) \<longleftrightarrow> dict_get a ''type'' JNull = JStr ''Run'' \<and> truthy (dict_get a ''id'' JNull)"
  by (simp add: identified_run_def field_def)

lemma dict_get_map_of: "dict_get d k JNull = JStr s \<longleftrightarrow> map_of d k = Some (JStr s)"
  by (simp add: dict_get_def split: option.splits)

lemma process_activity_not_run:
  "dict_get a ''type'' JNull \<noteq> JStr ''Run'' \<Longrightarrow> process_activity str fs data_dir (JObj a) = Inr ([], [])"
  by (simp add: process_activity_def)

lemma process_activity_no_id:
  "dict_get a ''type'' JNull = JStr ''Run'' \<Longrightarrow> \<not> truthy (dict_get a ''id'' JNull) \<Longrightarrow>
   process_activity str fs data_dir (JObj a) = Inr ([MissingID (JObj a)], [])"
  by (simp add: process_activity_def)

lemma process_activity_run:
  "dict_get a ''type'' JNull = JStr ''Run'' \<Longrightarrow> truthy (dict_get a ''id'' JNull) \<Longrightarrow>
   process_activity str fs data_dir (JObj a) =
     (case load_stream_data fs (str (dict_get a ''id'' JNull)) data_dir of
        Inl e \<Rightarrow> Inl e
      | Inr (ws, stream_data) \<Rightarrow>
          Inr (ws, [JObj (processed_activity a (dict_get a ''id'' JNull) @
                          [(''heartrate'', fst (channels stream_data)),
                           (''velocity_smooth'', snd (channels stream_data))])]))"
  by (simp add: process_activity_def Let_def split: sum.splits prod.splits)

text \<open>A readable stream file is loaded without an exception.\<close>

lemma load_stream_data_readable:
  assumes "readable (file_at fs (stream_file activity_id data_dir))"
  shows "load_stream_data fs activity_id data_dir =
     Inr (case file_at fs (stream_file activity_id data_dir) of
            NoFile \<Rightarrow> ([StreamFileNotFound activity_id], JObj [])
          | Json stream_data \<Rightarrow> ([], stream_data)
          | _ \<Rightarrow> ([StreamParseFailed activity_id], JObj []))"
  using assms by (cases "file_at fs (stream_file activity_id data_dir)") (simp_all add: load_stream_data_def)

lemma process_activity_readable:
  assumes "dict_get a ''type'' JNull = JStr ''Run''" and "truthy (dict_get a ''id'' JNull)"
    and "readable (file_at fs (stream_file (str (dict_get a ''id'' JNull)) data_dir))"
  shows "\<exists>ws h v. process_activity str fs data_dir (JObj a) =
     Inr (ws, [JObj (processed_activity a (dict_get a ''id'' JNull) @
                     [(''heartrate'', h), (''velocity_smooth'', v)])])"
  by (simp add: process_activity_run [OF assms(1,2)] load_stream_data_readable [OF assms(3)]
      split: json_file.splits)

lemma process_loop_append:
  "process_loop str fs data_dir (xs @ ys) =
     (case process_loop str fs data_dir xs of
        Inl e \<Rightarrow> Inl e
      | Inr (ws, out) \<Rightarrow>
          (case process_loop str fs data_dir ys of
             Inl e \<Rightarrow> Inl e
           | Inr (ws', out') \<Rightarrow> Inr (ws @ ws', out @ out')))"
  by (induction xs) (auto split: sum.splits prod.splits)

text \<open>
  The loop over a list of dicts whose stream files are readable does not raise, and
  pairs off its output with the runs that have an identifier.
\<close>

lemma process_loop_dicts:
  assumes "list_all is_dict activities"
    and "list_all (\<lambda>a. readable (file_at fs (stream_file (str (field ''id'' a)) data_dir)))
           (filter identified_run activities)"
  shows "\<exists>ws out. process_loop str fs data_dir activities = Inr (ws, out) \<and>
     list_all2 (\<lambda>a r. field ''id'' r = field ''id'' a \<and>
                  (\<exists>w. process_activity str fs data_dir a = Inr (w, [r])))
       (filter identified_run activities) out"
  using assms
proof (induction activities)
  case Nil
  show ?case by simp
next
  case (Cons x activities)
  from Cons.prems(1) obtain a where x: "x = JObj a"
    by (cases x) simp_all
  from Cons obtain ws out where
    rest: "process_loop str fs data_dir activities = Inr (ws, out)"
      "list_all2 (\<lambda>a r. field ''id'' r = field ''id'' a \<and>
                    (\<exists>w. process_activity str fs data_dir a = Inr (w, [r])))
         (filter identified_run activities) out"
    by (auto split: if_splits)
  consider (other) "dict_get a ''type'' JNull \<noteq> JStr ''Run''"
    | (no_id) "dict_get a ''type'' JNull = JStr ''Run''" "\<not> truthy (dict_get a ''id'' JNull)"
    | (run) "dict_get a ''type'' JNull = JStr ''Run''" "truthy (dict_get a ''id'' JNull)"
    by blast
  then show ?case
  proof cases
    case other
    then show ?thesis
      using rest by (simp add: x process_activity_not_run identified_run_JObj)
  next
    case no_id
    then show ?thesis
      using rest by (simp add: x process_activity_no_id identified_run_JObj)
  next
    case run
    with Cons.prems(2) have "readable (file_at fs (stream_file (str (dict_get a ''id'' JNull)) data_dir))"
      by (simp add: x field_JObj identified_run_JObj)
    from process_activity_readable [where str = str, OF run this] obtain w h v where
      "process_activity str fs data_dir (JObj a) =
         Inr (w, [JObj (processed_activity a (dict_get a ''id'' JNull) @
                        [(''heartrate'', h), (''velocity_smooth'', v)])])"
      by blast
    with run rest show ?thesis
      by (simp add: x field_JObj identified_run_JObj processed_activity_def dict_get_def)
  qed
qed

text \<open>One turn of the inner loop, read off the record's channel name.\<close>

lemma stream_step_field:
  "stream_step hv s =
     (if field ''type'' s = JStr ''heartrate'' then (channel_data s, snd hv)
      else if field ''type'' s = JStr ''velocity_smooth'' then (fst hv, channel_data s)
      else hv)"
  by (cases s) (simp_all add: stream_step_def field_def channel_data_def Let_def)

text \<open>The inner loop leaves in each variable the data of the last record of that name.\<close>

lemma foldl_stream_step:
  "foldl stream_step (h, v) streams =
     (case rev (filter (\<lambda>s. field ''type'' s = JStr ''heartrate'') streams) of
        [] \<Rightarrow> h | s # _ \<Rightarrow> channel_data s,
      case rev (filter (\<lambda>s. field ''type'' s = JStr ''velocity_smooth'') streams) of
        [] \<Rightarrow> v | s # _ \<Rightarrow> channel_data s)"
proof (induction streams rule: rev_induct)
  case Nil
  show ?case by simp
next
  case (snoc s streams)
  have "foldl stream_step (h, v) (streams @ [s]) = stream_step (foldl stream_step (h, v) streams) s"
    by simp
  also have "\<dots> = stream_step
       (case rev (filter (\<lambda>s. field ''type'' s = JStr ''heartrate'') streams) of
          [] \<Rightarrow> h | s # _ \<Rightarrow> channel_data s,
        case rev (filter (\<lambda>s. field ''type'' s = JStr ''velocity_smooth'') streams) of
          [] \<Rightarrow> v | s # _ \<Rightarrow> channel_data s) s"
    by (simp only: snoc)
  also have "\<dots> =
       (case rev (filter (\<lambda>s. field ''type'' s = JStr ''heartrate'') (streams @ [s])) of
          [] \<Rightarrow> h | s # _ \<Rightarrow> channel_data s,
        case rev (filter (\<lambda>s. field ''type'' s = JStr ''velocity_smooth'') (streams @ [s])) of
          [] \<Rightarrow> v | s # _ \<Rightarrow> channel_data s)"
    by (subst stream_step_field) simp
  finally show ?case .
qed

lemma last_named_is_list:
  assumes "sequence_channels (JList streams)"
    and "name = ''heartrate'' \<or> name = ''velocity_smooth''"
  shows "is_list (case rev (filter (\<lambda>s. field ''type'' s = JStr name) streams) of
                    [] \<Rightarrow> JList [] | s # _ \<Rightarrow> channel_data s)"
proof (cases "rev (filter (\<lambda>s. field ''type'' s = JStr name) streams)")
  case Nil
  then show ?thesis by simp
next
  case (Cons s rest)
  then have "s \<in> set (rev (filter (\<lambda>s. field ''type'' s = JStr name) streams))"
    by simp
  then have "s \<in> set streams" and "field ''type'' s = JStr name"
    by simp_all
  with assms have "is_list (channel_data s)"
    by (auto simp: sequence_channels_def list_all_iff)
  with Cons show ?thesis by simp
qed

lemma channels_sequence:
  assumes "sequence_channels payload"
  shows "is_list (fst (channels payload)) \<and> is_list (snd (channels payload))"
proof (cases payload)
  case (JList streams)
  with assms last_named_is_list [of streams "''heartrate''"]
    last_named_is_list [of streams "''velocity_smooth''"]
  show ?thesis
    by (simp add: channels_def foldl_stream_step del: foldl_Cons)
next
  case (JObj d)
  with assms show ?thesis
    by (simp add: channels_def sequence_channels_def)
qed (simp_all add: channels_def)

text \<open>
  What the loop computes depends on the file system only through the way paths are
  resolved and through the stream files of the runs with an identifier.
\<close>

lemma process_activity_frame:
  assumes "resolve fs' = resolve fs"
    and "identified_run activity \<Longrightarrow>
           files fs' (resolve fs (stream_file (str (field ''id'' activity)) data_dir)) =
           files fs (resolve fs (stream_file (str (field ''id'' activity)) data_dir))"
  shows "process_activity str fs' data_dir activity = process_activity str fs data_dir activity"
proof (cases activity)
  case (JObj a)
  consider (other) "dict_get a ''type'' JNull \<noteq> JStr ''Run''"
    | (no_id) "dict_get a ''type'' JNull = JStr ''Run''" "\<not> truthy (dict_get a ''id'' JNull)"
    | (run) "dict_get a ''type'' JNull = JStr ''Run''" "truthy (dict_get a ''id'' JNull)"
    by blast
  then show ?thesis
  proof cases
    case other
    then show ?thesis by (simp add: JObj process_activity_not_run)
  next
    case no_id
    then show ?thesis by (simp add: JObj process_activity_no_id)
  next
    case run
    with assms(2) have "files fs' (resolve fs (stream_file (str (dict_get a ''id'' JNull)) data_dir)) =
        files fs (resolve fs (stream_file (str (dict_get a ''id'' JNull)) data_dir))"
      by (simp add: JObj identified_run_JObj field_JObj)
    with assms(1) have "load_stream_data fs' (str (dict_get a ''id'' JNull)) data_dir =
        load_stream_data fs (str (dict_get a ''id'' JNull)) data_dir"
      by (simp add: load_stream_data_def file_at_def)
    with run show ?thesis
      by (simp add: JObj process_activity_run)
  qed
qed (simp_all add: process_activity_def)

lemma process_loop_frame:
  assumes "resolve fs' = resolve fs"
    and "\<And>a. a \<in> set items \<Longrightarrow> identified_run a \<Longrightarrow>
           files fs' (resolve fs (stream_file (str (field ''id'' a)) data_dir)) =
           files fs (resolve fs (stream_file (str (field ''id'' a)) data_dir))"
  shows "process_loop str fs' data_dir items = process_loop str fs data_dir items"
  using assms(2)
proof (induction items)
  case Nil
  show ?case by simp
next
  case (Cons x items)
  have "process_activity str fs' data_dir x = process_activity str fs data_dir x"
    by (rule process_activity_frame [OF assms(1)]) (simp add: Cons.prems)
  moreover have "process_loop str fs' data_dir items = process_loop str fs data_dir items"
    by (rule Cons.IH) (simp add: Cons.prems)
  ultimately show ?case by (simp split: sum.splits prod.splits)
qed

text \<open>Writing a file that the run does not read leaves what the loop computes as it was.\<close>

lemma processed_activities_frame:
  assumes "k \<notin> set (files_read str fs data_dir)"
  shows "processed_activities str (fs\<lparr>files := (files fs)(k := f)\<rparr>) data_dir =
         processed_activities str fs data_dir"
proof -
  let ?fs' = "fs\<lparr>files := (files fs)(k := f)\<rparr>"
  from assms have k: "resolve fs (activities_file data_dir) \<noteq> k"
    by (auto simp: files_read_def)
  then have la: "load_activities ?fs' data_dir = load_activities fs data_dir"
    by (simp add: load_activities_def file_at_def)
  show ?thesis
  proof (cases "load_activities fs data_dir")
    case (Inl e)
    with la show ?thesis by (simp add: processed_activities_def)
  next
    case (Inr activities)
    show ?thesis
    proof (cases "py_iter activities")
      case (Inl e)
      with la Inr show ?thesis by (simp add: processed_activities_def)
    next
      case items: (Inr items)
      have "process_loop str ?fs' data_dir items = process_loop str fs data_dir items"
      proof (rule process_loop_frame)
        show "resolve ?fs' = resolve fs" by simp
      next
        fix a assume "a \<in> set items" and "identified_run a"
        with assms Inr items
        have "resolve fs (stream_file (str (field ''id'' a)) data_dir) \<noteq> k"
          by (auto simp: files_read_def)
        then show "files ?fs' (resolve fs (stream_file (str (field ''id'' a)) data_dir)) =
            files fs (resolve fs (stream_file (str (field ''id'' a)) data_dir))"
          by simp
      qed
      with la Inr items show ?thesis by (simp add: processed_activities_def)
    qed
  qed
qed

text \<open>The definitions that the examples unfold.\<close>

lemmas example_defs =
  example_fs_def example_files_def example_resolve_def writable_def example_run_def
  example_fields_def example_record_def heartrate_record_def str_text_def
  file_at_def stream_file_def activities_file_def joinpath_def

lemmas merger_defs =
  process_activity_def load_stream_data_def load_activities_def processed_activities_def
  channels_def stream_step_def processed_activity_def py_or_def dict_get_def

section \<open>The Merger's output collection\<close>

text \<open>
  C1, as stated, fails: a run ends with no output collection at all when a stream file
  cannot be read. Here the stream path of the run \<^verbatim>\<open>i1\<close> exists and opening it raises
  \<open>OSError\<close> (it is a directory, or may not be read); the collection has two runs with
  an identifier, the Merger raises, and no output file is written.
\<close>

theorem unreadable_stream_file_no_output_counterexample:
  "filter identified_run [example_run ''i1'', example_run ''i2''] = [example_run ''i1'', example_run ''i2'']
   \<and> merger_main str_text (example_fs (Json (JList [example_run ''i1'', example_run ''i2''])) (LoadRaises OSError)) ''data'' =
       (Inl OSError, example_fs (Json (JList [example_run ''i1'', example_run ''i2''])) (LoadRaises OSError))
   \<and> file_at (example_fs (Json (JList [example_run ''i1'', example_run ''i2''])) (LoadRaises OSError))
        ''data/processed_activities.json'' = NoFile"
  by (simp add: merger_main_def process_activities_def identified_run_def field_def merger_defs example_defs)

text \<open>
  C1, amended. For every activities collection (a list of activity records) read by
  the Merger such that the stream file of every run with an identifier can be read (it
  is missing, it parses, or it fails with \<open>JSONDecodeError\<close>), the run of the loop does
  not raise, and its output pairs off, one for one and in the same order, with the
  activities of the input that are runs and have a non-empty identifier, that is, one
  that Python takes as true: each output record carries the identifier of its activity
  and is the record the loop body builds for it. Runs without an identifier, and
  activities that are not runs, have no entry. This collection is what the output file
  holds afterwards, unless opening it for writing raises.
\<close>

theorem one_record_per_identified_run:
  assumes "file_at fs (activities_file data_dir) = Json (JList activities)"
    and "list_all is_dict activities"
    and "list_all (\<lambda>a. readable (file_at fs (stream_file (str (field ''id'' a)) data_dir)))
           (filter identified_run activities)"
  shows "\<exists>ws out. processed_activities str fs data_dir = Inr (ws, out) \<and>
     list_all2 (\<lambda>a r. field ''id'' r = field ''id'' a \<and>
                  (\<exists>w. process_activity str fs data_dir a = Inr (w, [r])))
       (filter identified_run activities) out \<and>
     process_activities str fs data_dir output_file =
       (case open_w fs (resolve fs output_file) of
          Some e \<Rightarrow> (Inl e, fs)
        | None \<Rightarrow> (Inr ws, fs\<lparr>files := (files fs)(resolve fs output_file := Json (JList out))\<rparr>))"
proof -
  from process_loop_dicts [OF assms(2,3)] obtain ws out where
    loop: "process_loop str fs data_dir activities = Inr (ws, out)"
    and pairs: "list_all2 (\<lambda>a r. field ''id'' r = field ''id'' a \<and>
                  (\<exists>w. process_activity str fs data_dir a = Inr (w, [r])))
       (filter identified_run activities) out"
    by blast
  from loop assms(1) have all: "processed_activities str fs data_dir = Inr (ws, out)"
    by (simp add: processed_activities_def load_activities_def)
  then have "process_activities str fs data_dir output_file =
       (case open_w fs (resolve fs output_file) of
          Some e \<Rightarrow> (Inl e, fs)
        | None \<Rightarrow> (Inr ws, fs\<lparr>files := (files fs)(resolve fs output_file := Json (JList out))\<rparr>))"
    by (simp add: process_activities_def)
  with all pairs show ?thesis by blast
qed

text \<open>
  C1, amended, at an input: a run, a ride, a run without identifier and another run,
  with no stream files, give the records of the first and the last, in this order.
\<close>

theorem one_record_per_identified_run_witness:
  "file_at (example_fs (Json (JList example_activities)) NoFile) (activities_file ''data'') =
     Json (JList example_activities)
   \<and> list_all is_dict example_activities
   \<and> list_all (\<lambda>a. readable (file_at (example_fs (Json (JList example_activities)) NoFile)
                      (stream_file (str_text (field ''id'' a)) ''data'')))
        (filter identified_run example_activities)
   \<and> (\<exists>ws out. processed_activities str_text (example_fs (Json (JList example_activities)) NoFile) ''data'' = Inr (ws, out) \<and>
        list_all2 (\<lambda>a r. field ''id'' r = field ''id'' a \<and>
            (\<exists>w. process_activity str_text (example_fs (Json (JList example_activities)) NoFile) ''data'' a = Inr (w, [r])))
          [example_run ''i1'', example_run ''i3''] out)"
proof -
  let ?fs = "example_fs (Json (JList example_activities)) NoFile"
  have f: "filter identified_run example_activities = [example_run ''i1'', example_run ''i3'']"
    by (simp add: example_activities_def example_run_def example_fields_def identified_run_def
        field_def dict_get_def)
  have h1: "file_at ?fs (activities_file ''data'') = Json (JList example_activities)"
    by (simp add: example_defs)
  have h2: "list_all is_dict example_activities"
    by (simp add: example_activities_def example_run_def)
  have h3: "list_all (\<lambda>a. readable (file_at ?fs (stream_file (str_text (field ''id'' a)) ''data'')))
        (filter identified_run example_activities)"
    unfolding f by (simp add: example_defs field_def dict_get_def)
  from one_record_per_identified_run [where str = str_text, OF h1 h2 h3] h1 h2 h3
  show ?thesis
    unfolding f by blast
qed

text \<open>
  C9. An activity record whose category tag is not \<^verbatim>\<open>Run\<close>, or that has none, adds
  no record and prints no warning, and the run goes on as if the record were not in
  the collection: the Merger applies the category filter itself.
\<close>

theorem other_categories_skipped_silently:
  assumes "map_of a ''type'' \<noteq> Some (JStr ''Run'')"
  shows "process_activity str fs data_dir (JObj a) = Inr ([], [])
     \<and> process_loop str fs data_dir (before @ JObj a # after) = process_loop str fs data_dir (before @ after)"
proof -
  from assms have "dict_get a ''type'' JNull \<noteq> JStr ''Run''"
    by (simp add: dict_get_map_of)
  then have one: "process_activity str fs data_dir (JObj a) = Inr ([], [])"
    by (rule process_activity_not_run)
  then have "process_loop str fs data_dir (JObj a # after) = process_loop str fs data_dir after"
    by (simp split: sum.splits)
  then have "process_loop str fs data_dir (before @ JObj a # after) = process_loop str fs data_dir (before @ after)"
    by (simp only: process_loop_append)
  with one show ?thesis by simp
qed

text \<open>C9, at an input: a ride between two runs.\<close>

theorem other_categories_skipped_silently_witness:
  "map_of [(''id'', JStr ''i2''), (''type'', JStr ''Ride'')] ''type'' \<noteq> Some (JStr ''Run'')
   \<and> process_activity str_text (example_fs NoFile NoFile) ''data'' (JObj [(''id'', JStr ''i2''), (''type'', JStr ''Ride'')]) =
       Inr ([], [])
   \<and> process_loop str_text (example_fs NoFile NoFile) ''data''
        ([example_run ''i1''] @ JObj [(''id'', JStr ''i2''), (''type'', JStr ''Ride'')] # [example_run ''i3'']) =
     process_loop str_text (example_fs NoFile NoFile) ''data'' ([example_run ''i1''] @ [example_run ''i3''])"
proof -
  have h: "map_of [(''id'', JStr ''i2''), (''type'', JStr ''Ride'')] ''type'' \<noteq> Some (JStr ''Run'')"
    by simp
  from other_categories_skipped_silently [OF h] h show ?thesis
    by blast
qed

text \<open>
  C10. An activity whose identifier is present but is the number 0 or the empty string
  never produces a record. When it is a run, it is dropped with the warning that its
  identifier is missing, the very warning the same activity gets once its identifier
  is taken away.
\<close>

theorem falsy_identifier_dropped_like_missing:
  assumes "map_of a ''id'' = Some (JInt 0) \<or> map_of a ''id'' = Some (JStr [])"
  shows "(\<exists>ws. process_activity str fs data_dir (JObj a) = Inr (ws, []))
     \<and> (map_of a ''type'' = Some (JStr ''Run'') \<longrightarrow>
          process_activity str fs data_dir (JObj a) = Inr ([MissingID (JObj a)], []) \<and>
          process_activity str fs data_dir (JObj (AList.delete ''id'' a)) =
            Inr ([MissingID (JObj (AList.delete ''id'' a))], []))"
proof -
  from assms have falsy: "\<not> truthy (dict_get a ''id'' JNull)"
    by (auto simp: dict_get_def)
  have gone: "\<not> truthy (dict_get (AList.delete ''id'' a) ''id'' JNull)"
    by (simp add: dict_get_def delete_conv')
  have kept: "dict_get (AList.delete ''id'' a) ''type'' JNull = dict_get a ''type'' JNull"
    by (simp add: dict_get_def)
  show ?thesis
  proof (cases "dict_get a ''type'' JNull = JStr ''Run''")
    case True
    then show ?thesis
      using falsy gone kept by (simp add: process_activity_no_id)
  next
    case False
    then show ?thesis
      by (simp add: process_activity_not_run dict_get_map_of)
  qed
qed

text \<open>C10, at an input: a run whose identifier is 0.\<close>

theorem falsy_identifier_dropped_like_missing_witness:
  "(map_of [(''id'', JInt 0), (''type'', JStr ''Run'')] ''id'' = Some (JInt 0)
      \<or> map_of [(''id'', JInt 0), (''type'', JStr ''Run'')] ''id'' = Some (JStr []))
   \<and> map_of [(''id'', JInt 0), (''type'', JStr ''Run'')] ''type'' = Some (JStr ''Run'')
   \<and> process_activity str_text (example_fs NoFile NoFile) ''data'' (JObj [(''id'', JInt 0), (''type'', JStr ''Run'')]) =
       Inr ([MissingID (JObj [(''id'', JInt 0), (''type'', JStr ''Run'')])], [])
   \<and> process_activity str_text (example_fs NoFile NoFile) ''data'' (JObj [(''type'', JStr ''Run'')]) =
       Inr ([MissingID (JObj [(''type'', JStr ''Run'')])], [])"
proof -
  have h: "map_of [(''id'', JInt 0), (''type'', JStr ''Run'')] ''id'' = Some (JInt 0)
      \<or> map_of [(''id'', JInt 0), (''type'', JStr ''Run'')] ''id'' = Some (JStr [])"
    by simp
  have d: "AList.delete ''id'' [(''id'', JInt 0), (''type'', JStr ''Run'')] = [(''type'', JStr ''Run'')]"
    by (simp add: AList.delete_eq)
  from falsy_identifier_dropped_like_missing [OF h, of str_text "example_fs NoFile NoFile" "''data''"] h
  show ?thesis
    unfolding d by simp
qed

section \<open>The channels of a stream payload\<close>

text \<open>
  C3, as stated, fails: with two records named \<^verbatim>\<open>heartrate\<close> in a list payload, the
  first holding \<^verbatim>\<open>[1]\<close> and the second \<^verbatim>\<open>[2]\<close>, the merged record's heartrate is
  \<^verbatim>\<open>[2]\<close>, the data of the second.
\<close>

theorem first_record_does_not_supply_channel_counterexample:
  "channel_data (heartrate_record 1) = JList [JInt 1]
   \<and> process_activity str_text (example_fs NoFile (Json (JList [heartrate_record 1, heartrate_record 2])))
        ''data'' (example_run ''i1'') =
      Inr ([], [JObj [(''id'', JStr ''i1''), (''datetime'', JStr ''2025-03-01T07:30:00''),
                      (''duration'', JInt 1750), (''distance'', JInt 5000),
                      (''heartrate'', JList [JInt 2]), (''velocity_smooth'', JList [])]])"
  by (simp add: channel_data_def merger_defs example_defs)

text \<open>
  C3, amended. For every stream payload in list-of-typed-records form, the last record
  whose channel name equals \<^verbatim>\<open>heartrate\<close> supplies the heartrate channel and the last
  record whose channel name equals \<^verbatim>\<open>velocity_smooth\<close> supplies the velocity channel;
  a channel no record names is the empty list.
\<close>

theorem last_record_supplies_channel:
  "channels (JList streams) = (last_channel ''heartrate'' streams, last_channel ''velocity_smooth'' streams)"
  by (cases streams) (simp_all add: channels_def last_channel_def foldl_stream_step del: foldl_Cons)

text \<open>C3, amended, at an input: two heartrate records around an element that is no record.\<close>

theorem last_record_supplies_channel_witness:
  "channels (JList [heartrate_record 1, JStr ''cadence'', heartrate_record 2]) = (JList [JInt 2], JList [])"
  using last_record_supplies_channel [of "[heartrate_record 1, JStr ''cadence'', heartrate_record 2]"]
  by (simp add: last_channel_def field_def channel_data_def heartrate_record_def dict_get_def)

text \<open>
  C7. For a stream payload in mapping-of-channels form, the merged record's heartrate
  is the value under the key \<^verbatim>\<open>heartrate\<close> and its velocity the value under the key
  \<^verbatim>\<open>velocity_smooth\<close>, and the empty list where the key is absent. In particular the
  payload \<^verbatim>\<open>{"heartrate": [1,2,3], "velocity_smooth": [4,5]}\<close> gives the channels
  \<^verbatim>\<open>[1,2,3]\<close> and \<^verbatim>\<open>[4,5]\<close>.
\<close>

theorem mapping_payload_read_by_key:
  assumes "map_of a ''type'' = Some (JStr ''Run'')" and "truthy (dict_get a ''id'' JNull)"
    and "file_at fs (stream_file (str (dict_get a ''id'' JNull)) data_dir) = Json (JObj d)"
  shows "(\<exists>ws e. process_activity str fs data_dir (JObj a) = Inr (ws, [JObj e]) \<and>
            map_of e ''heartrate'' = Some (case map_of d ''heartrate'' of None \<Rightarrow> JList [] | Some h \<Rightarrow> h) \<and>
            map_of e ''velocity_smooth'' = Some (case map_of d ''velocity_smooth'' of None \<Rightarrow> JList [] | Some v \<Rightarrow> v))
     \<and> channels (JObj [(''heartrate'', JList [JInt 1, JInt 2, JInt 3]), (''velocity_smooth'', JList [JInt 4, JInt 5])]) =
           (JList [JInt 1, JInt 2, JInt 3], JList [JInt 4, JInt 5])"
proof -
  from assms(1) have run: "dict_get a ''type'' JNull = JStr ''Run''"
    by (simp add: dict_get_def)
  have "channels (JObj d) =
          (case map_of d ''heartrate'' of None \<Rightarrow> JList [] | Some h \<Rightarrow> h,
           case map_of d ''velocity_smooth'' of None \<Rightarrow> JList [] | Some v \<Rightarrow> v)"
    by (cases d) (simp_all add: channels_def dict_get_def)
  then have "\<exists>ws e. process_activity str fs data_dir (JObj a) = Inr (ws, [JObj e]) \<and>
            map_of e ''heartrate'' = Some (case map_of d ''heartrate'' of None \<Rightarrow> JList [] | Some h \<Rightarrow> h) \<and>
            map_of e ''velocity_smooth'' = Some (case map_of d ''velocity_smooth'' of None \<Rightarrow> JList [] | Some v \<Rightarrow> v)"
    using assms(3)
    by (simp add: process_activity_run [OF run assms(2)] load_stream_data_def processed_activity_def)
  moreover have "channels (JObj [(''heartrate'', JList [JInt 1, JInt 2, JInt 3]), (''velocity_smooth'', JList [JInt 4, JInt 5])]) =
           (JList [JInt 1, JInt 2, JInt 3], JList [JInt 4, JInt 5])"
    by (simp add: channels_def dict_get_def)
  ultimately show ?thesis by blast
qed

text \<open>C7, at that payload, stored as the stream file of the run \<^verbatim>\<open>i1\<close>.\<close>

theorem mapping_payload_read_by_key_witness:
  "map_of (example_fields ''i1'') ''type'' = Some (JStr ''Run'')
   \<and> truthy (dict_get (example_fields ''i1'') ''id'' JNull)
   \<and> file_at (example_fs NoFile (Json (JObj [(''heartrate'', JList [JInt 1, JInt 2, JInt 3]),
          (''velocity_smooth'', JList [JInt 4, JInt 5])])))
        (stream_file (str_text (dict_get (example_fields ''i1'') ''id'' JNull)) ''data'') =
       Json (JObj [(''heartrate'', JList [JInt 1, JInt 2, JInt 3]), (''velocity_smooth'', JList [JInt 4, JInt 5])])
   \<and> (\<exists>ws e. process_activity str_text (example_fs NoFile (Json (JObj [(''heartrate'', JList [JInt 1, JInt 2, JInt 3]),
          (''velocity_smooth'', JList [JInt 4, JInt 5])]))) ''data'' (JObj (example_fields ''i1'')) = Inr (ws, [JObj e]) \<and>
        map_of e ''heartrate'' = Some (JList [JInt 1, JInt 2, JInt 3]) \<and>
        map_of e ''velocity_smooth'' = Some (JList [JInt 4, JInt 5]))"
proof -
  let ?d = "[(''heartrate'', JList [JInt 1, JInt 2, JInt 3]), (''velocity_smooth'', JList [JInt 4, JInt 5])]"
  have h1: "map_of (example_fields ''i1'') ''type'' = Some (JStr ''Run'')"
    by (simp add: example_fields_def)
  have h2: "truthy (dict_get (example_fields ''i1'') ''id'' JNull)"
    by (simp add: example_fields_def dict_get_def)
  have h3: "file_at (example_fs NoFile (Json (JObj ?d)))
        (stream_file (str_text (dict_get (example_fields ''i1'') ''id'' JNull)) ''data'') = Json (JObj ?d)"
    by (simp add: dict_get_def example_defs)
  from mapping_payload_read_by_key [where str = str_text, OF h1 h2 h3] h1 h2 h3 show ?thesis
    by simp
qed

text \<open>
  C4, as stated, fails: the value under a channel key is stored as it is. With the
  mapping payload \<^verbatim>\<open>{"heartrate": null, "velocity_smooth": 7}\<close> the merged record's
  heartrate is null and its velocity the number 7.
\<close>

theorem channel_value_not_a_sequence_counterexample:
  "process_activity str_text
     (example_fs NoFile (Json (JObj [(''heartrate'', JNull), (''velocity_smooth'', JInt 7)])))
     ''data'' (example_run ''i1'') =
   Inr ([], [JObj [(''id'', JStr ''i1''), (''datetime'', JStr ''2025-03-01T07:30:00''),
                   (''duration'', JInt 1750), (''distance'', JInt 5000),
                   (''heartrate'', JNull), (''velocity_smooth'', JInt 7)]])"
  by (simp add: merger_defs example_defs)

text \<open>
  C4, amended. For every activity processed by the Merger, whether the stream artifact
  is missing, malformed or of any payload shape, the record produced has both the
  heartrate and the velocity field; and both are sequences, possibly empty, whenever
  the values that the payload stores under the channel keys are sequences.
\<close>

theorem channels_present_and_passed_through:
  assumes "process_activity str fs data_dir activity = Inr (ws, out)" and "r \<in> set out"
  shows "\<exists>e h v. r = JObj e \<and> map_of e ''heartrate'' = Some h \<and> map_of e ''velocity_smooth'' = Some v \<and>
     ((case file_at fs (stream_file (str (field ''id'' activity)) data_dir) of
         Json payload \<Rightarrow> sequence_channels payload
       | _ \<Rightarrow> True) \<longrightarrow> is_list h \<and> is_list v)"
proof (cases activity)
  case (JObj a)
  consider (other) "dict_get a ''type'' JNull \<noteq> JStr ''Run''"
    | (no_id) "dict_get a ''type'' JNull = JStr ''Run''" "\<not> truthy (dict_get a ''id'' JNull)"
    | (run) "dict_get a ''type'' JNull = JStr ''Run''" "truthy (dict_get a ''id'' JNull)"
    by blast
  then show ?thesis
  proof cases
    case other
    with assms JObj show ?thesis by (simp add: process_activity_not_run)
  next
    case no_id
    with assms JObj show ?thesis by (simp add: process_activity_no_id)
  next
    case run
    let ?f = "file_at fs (stream_file (str (dict_get a ''id'' JNull)) data_dir)"
    from assms(1) JObj run obtain w p where
      load: "load_stream_data fs (str (dict_get a ''id'' JNull)) data_dir = Inr (w, p)"
      by (auto simp: process_activity_run split: sum.splits)
    with assms JObj run
    have r: "r = JObj (processed_activity a (dict_get a ''id'' JNull) @
                 [(''heartrate'', fst (channels p)), (''velocity_smooth'', snd (channels p))])"
      by (auto simp: process_activity_run)
    have "is_list (fst (channels p)) \<and> is_list (snd (channels p))"
      if "case ?f of Json payload \<Rightarrow> sequence_channels payload | _ \<Rightarrow> True"
    proof (cases ?f)
      case (Json payload)
      with that load show ?thesis
        by (auto simp: load_stream_data_def channels_sequence)
    qed (use load in \<open>auto simp: load_stream_data_def channels_def split: if_splits\<close>)
    then show ?thesis
      by (simp add: r JObj field_def processed_activity_def)
  qed
qed (use assms in \<open>simp_all add: process_activity_def\<close>)

text \<open>C4, amended, at an input: a list payload with one heartrate record.\<close>

theorem channels_present_and_passed_through_witness:
  "process_activity str_text (example_fs NoFile (Json (JList [heartrate_record 1]))) ''data'' (example_run ''i1'') =
     Inr ([], [example_record ''i1'' (JList [JInt 1]) (JList [])])
   \<and> example_record ''i1'' (JList [JInt 1]) (JList []) \<in> set [example_record ''i1'' (JList [JInt 1]) (JList [])]
   \<and> sequence_channels (JList [heartrate_record 1])
   \<and> (\<exists>e h v. example_record ''i1'' (JList [JInt 1]) (JList []) = JObj e \<and>
         map_of e ''heartrate'' = Some h \<and> map_of e ''velocity_smooth'' = Some v \<and> is_list h \<and> is_list v)"
proof -
  let ?fs = "example_fs NoFile (Json (JList [heartrate_record 1]))"
  have h1: "process_activity str_text ?fs ''data'' (example_run ''i1'') =
     Inr ([], [example_record ''i1'' (JList [JInt 1]) (JList [])])"
    by (simp add: merger_defs example_defs)
  have h2: "example_record ''i1'' (JList [JInt 1]) (JList []) \<in> set [example_record ''i1'' (JList [JInt 1]) (JList [])]"
    by simp
  have h3: "sequence_channels (JList [heartrate_record 1])"
    by (simp add: sequence_channels_def heartrate_record_def field_def channel_data_def dict_get_def)
  have f: "file_at ?fs (stream_file (str_text (field ''id'' (example_run ''i1''))) ''data'') = Json (JList [heartrate_record 1])"
    by (simp add: field_def dict_get_def example_defs)
  from channels_present_and_passed_through [OF h1 h2] h1 h2 h3 show ?thesis
    unfolding f by simp
qed

section \<open>Duration\<close>

text \<open>
  C5, as stated, fails twice. A moving time that is present but zero is passed over
  for the elapsed time: with \<^verbatim>\<open>moving_time = 0\<close> and \<^verbatim>\<open>elapsed_time = 1800\<close> the
  duration is 1800. And with both absent the record still has its duration field,
  holding null.
\<close>

theorem zero_moving_time_counterexample:
  "process_activity str_text (example_fs NoFile NoFile) ''data''
     (JObj [(''id'', JStr ''i1''), (''type'', JStr ''Run''), (''moving_time'', JInt 0), (''elapsed_time'', JInt 1800)]) =
   Inr ([StreamFileNotFound ''i1''],
        [JObj [(''id'', JStr ''i1''), (''datetime'', JNull), (''duration'', JInt 1800), (''distance'', JNull),
               (''heartrate'', JList []), (''velocity_smooth'', JList [])]])
   \<and> process_activity str_text (example_fs NoFile NoFile) ''data''
     (JObj [(''id'', JStr ''i1''), (''type'', JStr ''Run'')]) =
   Inr ([StreamFileNotFound ''i1''],
        [JObj [(''id'', JStr ''i1''), (''datetime'', JNull), (''duration'', JNull), (''distance'', JNull),
               (''heartrate'', JList []), (''velocity_smooth'', JList [])]])"
  by (simp add: merger_defs example_defs)

text \<open>
  C5, amended. For every run with an identifier, the record produced has its duration
  field always there: it holds the moving time when that is present and true for
  Python (not null, not zero, not empty), else the elapsed time when that is present,
  else null. The record is produced whenever the stream file of the run can be read;
  otherwise the run raises and there is no record.
\<close>

theorem duration_moving_time_or_elapsed_time:
  assumes "map_of a ''type'' = Some (JStr ''Run'')" and "truthy (dict_get a ''id'' JNull)"
  shows "(readable (file_at fs (stream_file (str (dict_get a ''id'' JNull)) data_dir)) \<longrightarrow>
            (\<exists>ws e. process_activity str fs data_dir (JObj a) = Inr (ws, [JObj e]) \<and>
               map_of e ''duration'' =
                 Some (let elapsed = (case map_of a ''elapsed_time'' of None \<Rightarrow> JNull | Some t \<Rightarrow> t)
                       in case map_of a ''moving_time'' of
                            None \<Rightarrow> elapsed
                          | Some m \<Rightarrow> if truthy m then m else elapsed)))
     \<and> (\<not> readable (file_at fs (stream_file (str (dict_get a ''id'' JNull)) data_dir)) \<longrightarrow>
            (\<exists>x. process_activity str fs data_dir (JObj a) = Inl x))"
proof -
  from assms(1) have run: "dict_get a ''type'' JNull = JStr ''Run''"
    by (simp add: dict_get_def)
  let ?f = "file_at fs (stream_file (str (dict_get a ''id'' JNull)) data_dir)"
  have "\<exists>ws e. process_activity str fs data_dir (JObj a) = Inr (ws, [JObj e]) \<and>
               map_of e ''duration'' =
                 Some (let elapsed = (case map_of a ''elapsed_time'' of None \<Rightarrow> JNull | Some t \<Rightarrow> t)
                       in case map_of a ''moving_time'' of
                            None \<Rightarrow> elapsed
                          | Some m \<Rightarrow> if truthy m then m else elapsed)"
    if "readable ?f"
  proof -
    from process_activity_readable [where str = str, OF run assms(2) that] obtain ws h v where
      "process_activity str fs data_dir (JObj a) =
         Inr (ws, [JObj (processed_activity a (dict_get a ''id'' JNull) @
                         [(''heartrate'', h), (''velocity_smooth'', v)])])"
      by blast
    then show ?thesis
      by (simp add: processed_activity_def py_or_def dict_get_def Let_def split: option.splits)
  qed
  moreover have "\<exists>x. process_activity str fs data_dir (JObj a) = Inl x"
    if "\<not> readable ?f"
    using that
    by (cases ?f) (simp_all add: process_activity_run [OF run assms(2)] load_stream_data_def)
  ultimately show ?thesis by blast
qed

text \<open>C5, amended, at an input: no moving time and an elapsed time of 1800.\<close>

theorem duration_moving_time_or_elapsed_time_witness:
  "map_of [(''id'', JStr ''i1''), (''type'', JStr ''Run''), (''elapsed_time'', JInt 1800)] ''type'' = Some (JStr ''Run'')
   \<and> truthy (dict_get [(''id'', JStr ''i1''), (''type'', JStr ''Run''), (''elapsed_time'', JInt 1800)] ''id'' JNull)
   \<and> readable (file_at (example_fs NoFile NoFile)
        (stream_file (str_text (dict_get [(''id'', JStr ''i1''), (''type'', JStr ''Run''), (''elapsed_time'', JInt 1800)] ''id'' JNull)) ''data''))
   \<and> (\<exists>ws e. process_activity str_text (example_fs NoFile NoFile) ''data''
          (JObj [(''id'', JStr ''i1''), (''type'', JStr ''Run''), (''elapsed_time'', JInt 1800)]) = Inr (ws, [JObj e]) \<and>
        map_of e ''duration'' = Some (JInt 1800))"
proof -
  let ?a = "[(''id'', JStr ''i1''), (''type'', JStr ''Run''), (''elapsed_time'', JInt 1800)]"
  have h1: "map_of ?a ''type'' = Some (JStr ''Run'')"
    by simp
  have h2: "truthy (dict_get ?a ''id'' JNull)"
    by (simp add: dict_get_def)
  have h3: "readable (file_at (example_fs NoFile NoFile) (stream_file (str_text (dict_get ?a ''id'' JNull)) ''data''))"
    by (simp add: dict_get_def example_defs)
  from duration_moving_time_or_elapsed_time [where str = str_text and fs = "example_fs NoFile NoFile" and data_dir = "''data''", OF h1 h2]
    h1 h2 h3 show ?thesis
    by simp
qed

section \<open>A stream file that does not parse\<close>

text \<open>
  C6. A stream file that exists but does not parse is meant to give a warning and a
  record with empty channels, and the run is meant to go on. When the bytes of the
  stream file of \<^verbatim>\<open>i1\<close> are not text, \<^verbatim>\<open>json.load\<close> raises \<open>UnicodeDecodeError\<close>;
  \<^verbatim>\<open>load_stream_data\<close> catches \<open>JSONDecodeError\<close> only, so the run ends there, \<^verbatim>\<open>i2\<close>
  is never looked at and no output file is written. Text that is not JSON raises
  \<open>JSONDecodeError\<close>, and then the warning is printed, both channels are empty and the
  run goes on to \<^verbatim>\<open>i2\<close> and writes its output.
\<close>

theorem undecodable_stream_file_ends_run:
  "merger_main str_text (example_fs (Json (JList [example_run ''i1'', example_run ''i2''])) (LoadRaises UnicodeDecodeError)) ''data'' =
     (Inl UnicodeDecodeError, example_fs (Json (JList [example_run ''i1'', example_run ''i2''])) (LoadRaises UnicodeDecodeError))
   \<and> processed_activities str_text (example_fs (Json (JList [example_run ''i1'', example_run ''i2''])) (LoadRaises JSONDecodeError)) ''data'' =
     Inr ([StreamParseFailed ''i1'', StreamFileNotFound ''i2''],
          [example_record ''i1'' (JList []) (JList []), example_record ''i2'' (JList []) (JList [])])
   \<and> file_at (snd (merger_main str_text (example_fs (Json (JList [example_run ''i1'', example_run ''i2''])) (LoadRaises JSONDecodeError)) ''data''))
        ''data/processed_activities.json'' =
     Json (JList [example_record ''i1'' (JList []) (JList []), example_record ''i2'' (JList []) (JList [])])"
  by (simp add: merger_main_def process_activities_def merger_defs example_defs)

section \<open>Running the Merger again\<close>

text \<open>
  C8, as stated, fails: the Merger can change a file it reads. The one run below has
  the identifier \<^verbatim>\<open>../processed_activities\<close>, so its stream file is the output file,
  which holds a heartrate record with the data \<^verbatim>\<open>[1]\<close>. The first run reads that
  record and writes a collection whose heartrate is \<^verbatim>\<open>[1]\<close>; the second run reads
  what the first wrote, finds no typed record in it and writes a collection whose
  heartrate is empty. The activities file is the same for both.
\<close>

theorem output_read_as_stream_counterexample:
  "resolve aliased_fs (stream_file ''../processed_activities'' ''data'') =
     resolve aliased_fs (joinpath ''data'' ''processed_activities.json'')
   \<and> file_at (snd (merger_main str_text aliased_fs ''data'')) ''data/processed_activities.json'' =
       Json (JList [example_record ''../processed_activities'' (JList [JInt 1]) (JList [])])
   \<and> file_at (snd (merger_main str_text (snd (merger_main str_text aliased_fs ''data'')) ''data''))
        ''data/processed_activities.json'' =
       Json (JList [example_record ''../processed_activities'' (JList []) (JList [])])
   \<and> file_at (snd (merger_main str_text aliased_fs ''data'')) ''data/activities.json'' =
       file_at aliased_fs ''data/activities.json''"
proof -
  let ?fs1 = "aliased_fs\<lparr>files := (files aliased_fs)(''data/processed_activities.json'' :=
      Json (JList [example_record ''../processed_activities'' (JList [JInt 1]) (JList [])]))\<rparr>"
  let ?fs2 = "?fs1\<lparr>files := (files ?fs1)(''data/processed_activities.json'' :=
      Json (JList [example_record ''../processed_activities'' (JList []) (JList [])]))\<rparr>"
  have r: "resolve aliased_fs (stream_file ''../processed_activities'' ''data'') =
     resolve aliased_fs (joinpath ''data'' ''processed_activities.json'')"
    by (simp add: aliased_fs_def example_defs)
  have one: "merger_main str_text aliased_fs ''data'' = (Inr [], ?fs1)"
    by (simp add: merger_main_def process_activities_def aliased_fs_def merger_defs example_defs)
  have two: "merger_main str_text ?fs1 ''data'' = (Inr [], ?fs2)"
    by (simp add: merger_main_def process_activities_def aliased_fs_def merger_defs example_defs)
  show ?thesis
    unfolding one two snd_conv
    by (simp add: aliased_fs_def example_defs)
qed

text \<open>
  C8, amended. For every fixed set of input artifacts, provided the output file is
  none of the files the run may read (the activities file and the stream files of the
  runs with an identifier), running the Merger twice gives the same output: the first
  run leaves the files it reads as they were, and the second run ends as the first did
  and leaves every file, the output file with it, as the first run left it. The text
  of the output file is a function of the collection it holds.
\<close>

theorem second_run_repeats_first:
  assumes "resolve fs output_file \<notin> set (files_read str fs data_dir)"
  shows "process_activities str (snd (process_activities str fs data_dir output_file)) data_dir output_file =
           process_activities str fs data_dir output_file
     \<and> list_all (\<lambda>path. files (snd (process_activities str fs data_dir output_file)) path = files fs path)
         (files_read str fs data_dir)"
proof (cases "processed_activities str fs data_dir")
  case (Inl e)
  then show ?thesis
    by (simp add: process_activities_def list_all_iff)
next
  case (Inr result)
  obtain ws out where result: "result = (ws, out)"
    by (cases result)
  show ?thesis
  proof (cases "open_w fs (resolve fs output_file)")
    case (Some e)
    with Inr result show ?thesis
      by (simp add: process_activities_def list_all_iff)
  next
    case None
    let ?fs' = "fs\<lparr>files := (files fs)(resolve fs output_file := Json (JList out))\<rparr>"
    from Inr result None have first: "process_activities str fs data_dir output_file = (Inr ws, ?fs')"
      by (simp add: process_activities_def)
    from processed_activities_frame [OF assms] Inr result
    have "processed_activities str ?fs' data_dir = Inr (ws, out)"
      by simp
    with None have second: "process_activities str ?fs' data_dir output_file = (Inr ws, ?fs')"
      by (simp add: process_activities_def)
    from assms have "list_all (\<lambda>path. files ?fs' path = files fs path) (files_read str fs data_dir)"
      by (auto simp: list_all_iff)
    with first second show ?thesis
      by simp
  qed
qed

text \<open>
  C8, amended, at an input: the run \<^verbatim>\<open>i1\<close> with a heartrate record in its stream file,
  and the output file of \<^verbatim>\<open>main\<close>.
\<close>

theorem second_run_repeats_first_witness:
  "resolve (example_fs (Json (JList [example_run ''i1''])) (Json (JList [heartrate_record 1])))
       (joinpath ''data'' ''processed_activities.json'')
     \<notin> set (files_read str_text (example_fs (Json (JList [example_run ''i1''])) (Json (JList [heartrate_record 1]))) ''data'')
   \<and> merger_main str_text
        (snd (merger_main str_text (example_fs (Json (JList [example_run ''i1''])) (Json (JList [heartrate_record 1]))) ''data''))
        ''data'' =
      merger_main str_text (example_fs (Json (JList [example_run ''i1''])) (Json (JList [heartrate_record 1]))) ''data''
   \<and> file_at (snd (merger_main str_text (example_fs (Json (JList [example_run ''i1''])) (Json (JList [heartrate_record 1]))) ''data''))
        ''data/processed_activities.json'' =
      Json (JList [example_record ''i1'' (JList [JInt 1]) (JList [])])"
proof -
  let ?fs = "example_fs (Json (JList [example_run ''i1''])) (Json (JList [heartrate_record 1]))"
  have reads: "files_read str_text ?fs ''data'' = [''data/activities.json'', ''data/streams/i1.json'']"
    by (simp add: files_read_def identified_run_def field_def load_activities_def dict_get_def example_defs)
  have h: "resolve ?fs (joinpath ''data'' ''processed_activities.json'') \<notin> set (files_read str_text ?fs ''data'')"
    unfolding reads by (simp add: example_defs)
  have out: "file_at (snd (merger_main str_text ?fs ''data'')) ''data/processed_activities.json'' =
      Json (JList [example_record ''i1'' (JList [JInt 1]) (JList [])])"
    by (simp add: merger_main_def process_activities_def merger_defs example_defs)
  from second_run_repeats_first [OF h] h out show ?thesis
    by (simp add: merger_main_def)
qed

section \<open>A stream request that fails\<close>

text \<open>
  C2. A failed stream request for one activity is meant to be reported as a warning,
  taken as "no streams", and the run is meant to go on. When the request for the
  streams of \<^verbatim>\<open>i1\<close> is answered with HTTP status 404, the run ends with
  \<^verbatim>\<open>SystemExit(1)\<close> instead and \<^verbatim>\<open>i2\<close> is never asked for: \<^verbatim>\<open>make_api_request\<close>
  turns the error into \<^verbatim>\<open>sys.exit(1)\<close>, which the handler in
  \<^verbatim>\<open>get_activity_streams\<close> does not catch. A failure of another kind, such as a
  response that is not JSON, is reported and the run goes on.
\<close>

theorem stream_http_error_ends_run:
  "download_main str_text (example_net (HTTPError 404)) = Inl (SystemExit 1)
   \<and> download_main str_text (example_net JSONDecodeError) =
       Inr ([CouldNotFetchStreams ''i1'' JSONDecodeError, NoStreamsAvailable],
            [example_run ''i1'', example_run ''i2''],
            [(''i2'', JList [heartrate_record 1])])"
  by (simp add: download_main_def get_activities_def make_api_request_def example_net_def
      get_activity_streams_def example_run_def example_fields_def str_text_def dict_get_def)

end
